theory Spec2Isabelle
  imports Main
begin

section \<open>Data model\<close>

text \<open>
  Record IDs are Python integers. A row is a dictionary from attribute names to values;
  a row dict (the RowStore) is an insertion-ordered dictionary from record ID to row,
  kept as an association list. Python dictionaries have unique keys, which theorems that
  depend on it assume as \<open>distinct (map fst rd)\<close>.
\<close>

type_synonym row_id = int

datatype pyval = NoneV | IntV int | StrV string

type_synonym row = "(string \<times> pyval) list"

type_synonym row_dict = "(row_id \<times> row) list"

type_synonym kwargs_dict = "(string \<times> pyval) list"

text \<open>An unordered pair of IDs is the set of its endpoints; a pair set is a set of them.\<close>

type_synonym id_pair = "row_id set"

type_synonym pair_set = "id_pair set"

text \<open>\<open>row_dict.keys()\<close>\<close>

definition keys :: "row_dict \<Rightarrow> row_id set" where
  "keys rd = set (map fst rd)"

text \<open>
  The exceptions of the program as values. \<open>ValueError a b ids\<close> is the message
  "There are common IDs between a and b: ids" of \<open>_check_for_common_rows\<close>;
  \<open>KeyError\<close> carries the message of \<open>_is_record_linkage\<close>. \<open>SchemaError\<close> and
  \<open>ConfigurationError\<close> are the failures the specification gives to the cluster indexer
  and the source splitter.
\<close>

datatype error =
    ValueError string string "row_id set"
  | KeyError string
  | SchemaError
  | ConfigurationError

text \<open>The trainer a Lightning data module is attached to; only its epoch counter is read.\<close>

record trainer =
  current_epoch :: int

section \<open>The check for common rows\<close>

text \<open>
  \<open>_check_for_common_rows\<close> (data_modules.py, lines 16-38): three intersections of key
  sets, tested in the order train/valid, train/test, valid/test; the first non-empty one
  raises.
\<close>

definition check_for_common_rows :: "row_dict \<Rightarrow> row_dict \<Rightarrow> row_dict \<Rightarrow> error + unit" where
  "check_for_common_rows train_row_dict valid_row_dict test_row_dict =
     (let train_valid_common_ids = keys train_row_dict \<inter> keys valid_row_dict in
      if train_valid_common_ids \<noteq> {} then
        Inl (ValueError ''train_row_dict'' ''valid_row_dict'' train_valid_common_ids)
      else
        let train_test_common_ids = keys train_row_dict \<inter> keys test_row_dict in
        if train_test_common_ids \<noteq> {} then
          Inl (ValueError ''train_row_dict'' ''test_row_dict'' train_test_common_ids)
        else
          let valid_test_common_ids = keys valid_row_dict \<inter> keys test_row_dict in
          if valid_test_common_ids \<noteq> {} then
            Inl (ValueError ''valid_row_dict'' ''test_row_dict'' valid_test_common_ids)
          else Inr ())"

section \<open>Datasets and loaders\<close>

text \<open>
  The dataset classes live in \<open>data_utils.datasets\<close> and the loader in \<open>torch\<close>; a data
  module only calls their constructors. A constructed dataset or loader is modelled as
  the record of the keyword arguments of that call.
\<close>

record 'n ClusterDataset =
  row_dict :: row_dict
  cluster_attr :: string
  row_numericalizer :: 'n
  batch_size :: int
  max_cluster_size_in_batch :: int
  random_seed :: int

record 'n RowDataset =
  row_dict :: row_dict
  row_numericalizer :: 'n
  batch_size :: int

record 'n PairDataset =
  row_dict :: row_dict
  pos_pair_set :: pair_set
  neg_pair_set :: pair_set
  row_numericalizer :: 'n
  batch_size :: int
  random_seed :: "int option"

text \<open>
  \<open>torch.utils.data.DataLoader(dataset, batch_size=None, shuffle=False, **kwargs)\<close>:
  \<open>batch_size\<close> is \<open>None\<close> when batching is left to the dataset; \<open>loader_kwargs\<close> are the
  keyword arguments unpacked into the call.
\<close>

record 'd DataLoader =
  dataset :: 'd
  batch_size :: "int option"
  shuffle :: bool
  loader_kwargs :: kwargs_dict

section \<open>Cluster indexing, source splitting and pair derivation\<close>

type_synonym cluster_dict = "(pyval \<times> row_id set) list"

text \<open>\<open>row[key]\<close> for a key that is any Python value: the keys of a row are strings.\<close>

fun row_get :: "row \<Rightarrow> pyval \<Rightarrow> pyval option" where
  "row_get r (StrV s) = map_of r s"
| "row_get r _ = None"

fun add_member :: "pyval \<Rightarrow> row_id \<Rightarrow> cluster_dict \<Rightarrow> cluster_dict" where
  "add_member c i [] = [(c, {i})]"
| "add_member c i ((c', s) # cd) =
     (if c = c' then (c', insert i s) # cd else (c', s) # add_member c i cd)"

fun index_rows :: "string \<Rightarrow> row_dict \<Rightarrow> cluster_dict \<Rightarrow> error + cluster_dict" where
  "index_rows attr [] cd = Inr cd"
| "index_rows attr ((i, r) # rows) cd =
     (case map_of r attr of
        None \<Rightarrow> Inl SchemaError
      | Some c \<Rightarrow> index_rows attr rows (add_member c i cd))"

text \<open>
  Modelled from the spec: \<open>utils.row_dict_to_cluster_dict\<close> (module \<open>data_utils.utils\<close> is
  not among the files at hand). Section 4.1, ClusterIndexer: groups the rows by the
  value of \<open>cluster_attr\<close>, an opaque key, into a mapping from cluster label to the set of
  member IDs; a row without the attribute is a \<open>SchemaError\<close>.
\<close>

definition row_dict_to_cluster_dict :: "row_dict \<Rightarrow> string \<Rightarrow> error + cluster_dict" where
  "row_dict_to_cluster_dict rd attr = index_rows attr rd []"

fun split_rows :: "pyval \<Rightarrow> pyval \<Rightarrow> row_dict \<Rightarrow> error + (row_id set \<times> row_id set)" where
  "split_rows source_attr left_source [] = Inr ({}, {})"
| "split_rows source_attr left_source ((i, r) # rows) =
     (case row_get r source_attr of
        None \<Rightarrow> Inl SchemaError
      | Some v \<Rightarrow>
          (case split_rows source_attr left_source rows of
             Inl e \<Rightarrow> Inl e
           | Inr (left, right) \<Rightarrow>
               if v = left_source then Inr (insert i left, right)
               else Inr (left, insert i right)))"

text \<open>
  Modelled from the spec: \<open>utils.row_dict_to_left_right_id_set\<close> (not among the files at
  hand). Section 4.2, SourceSplitter: every row must carry \<open>source_attr\<close> (Section 7:
  a missing attribute is a \<open>SchemaError\<close>); a row whose value equals the left value goes
  left, all others go right; an empty left or right set is a \<open>ConfigurationError\<close>.
\<close>

definition row_dict_to_left_right_id_set ::
  "row_dict \<Rightarrow> pyval \<Rightarrow> pyval \<Rightarrow> error + (row_id set \<times> row_id set)" where
  "row_dict_to_left_right_id_set rd source_attr left_source =
     (case split_rows source_attr left_source rd of
        Inl e \<Rightarrow> Inl e
      | Inr (left, right) \<Rightarrow>
          if left = {} \<or> right = {} then Inl ConfigurationError else Inr (left, right))"

text \<open>All unordered 2-combinations of the members of one cluster.\<close>

definition combinations2 :: "row_id set \<Rightarrow> pair_set" where
  "combinations2 C = (\<lambda>(a, b). {a, b}) ` Set.filter (\<lambda>(a, b). a \<noteq> b) (C \<times> C)"

text \<open>All pairs of a left member and a right member of one cluster.\<close>

definition cross_pairs :: "row_id set \<Rightarrow> row_id set \<Rightarrow> row_id set \<Rightarrow> pair_set" where
  "cross_pairs left right C = (\<lambda>(l, r). {l, r}) ` ((C \<inter> left) \<times> (C \<inter> right))"

text \<open>
  Modelled from the spec: \<open>utils.cluster_dict_to_id_pairs\<close> (not among the files at
  hand). Section 4.3, PairSampler: without left and right ID sets (deduplication mode)
  the union over clusters of all unordered 2-combinations of the cluster's members; with
  them (linkage mode) the union over clusters of all \<open>(l, r)\<close> with \<open>l\<close> in the cluster and
  the left set and \<open>r\<close> in the cluster and the right set. The two keyword arguments
  \<open>left_id_set\<close> and \<open>right_id_set\<close> are given together or not at all, so they are one
  optional pair.
\<close>

definition cluster_dict_to_id_pairs ::
  "cluster_dict \<Rightarrow> (row_id set \<times> row_id set) option \<Rightarrow> pair_set" where
  "cluster_dict_to_id_pairs cluster_dict sides =
     (case sides of
        None \<Rightarrow> \<Union> (combinations2 ` snd ` set cluster_dict)
      | Some (left_id_set, right_id_set) \<Rightarrow>
          \<Union> (cross_pairs left_id_set right_id_set ` snd ` set cluster_dict))"

section \<open>DeduplicationDataModule\<close>

text \<open>
  The attributes of a \<open>DeduplicationDataModule\<close>. \<open>trainer\<close> is the attribute of the
  Lightning base class: \<open>None\<close> until a trainer attaches itself. A pair-set attribute is
  \<open>None\<close> until \<open>setup\<close> assigns it. The type \<open>'n\<close> is the row numericalizer, which the
  module only passes on.
\<close>

record 'n DeduplicationDataModule =
  trainer :: "trainer option"
  cluster_attr :: string
  row_numericalizer :: 'n
  batch_size :: int
  eval_batch_size :: int
  train_loader_kwargs :: kwargs_dict
  eval_loader_kwargs :: kwargs_dict
  random_seed :: int
  train_row_dict :: row_dict
  valid_row_dict :: row_dict
  test_row_dict :: row_dict
  train_pos_pair_set :: "pair_set option"
  valid_pos_pair_set :: "pair_set option"
  test_pos_pair_set :: "pair_set option"

text \<open>
  \<open>DeduplicationDataModule.__init__\<close> (lines 42-78). \<open>build_loader_kwargs\<close> lives in
  \<open>helpers\<close>, outside the files at hand, and is a parameter. A keyword argument with a
  default is an option: \<open>None\<close> is the omitted argument, which takes the default of the
  signature (\<open>random_seed=42\<close>, \<open>check_for_common_rows=True\<close>). The check runs before
  any attribute is assigned, so a raise leaves no module behind.
\<close>

definition DeduplicationDataModule_init ::
  "(kwargs_dict option \<Rightarrow> kwargs_dict) \<Rightarrow> row_dict \<Rightarrow> row_dict \<Rightarrow> row_dict \<Rightarrow> string \<Rightarrow> 'n
    \<Rightarrow> int \<Rightarrow> int \<Rightarrow> kwargs_dict option \<Rightarrow> kwargs_dict option \<Rightarrow> int option \<Rightarrow> bool option
    \<Rightarrow> error + 'n DeduplicationDataModule" where
  "DeduplicationDataModule_init build_loader_kwargs train_rd valid_rd test_rd cluster_attr_arg
       row_numericalizer_arg batch_size_arg eval_batch_size_arg train_loader_kwargs_arg
       eval_loader_kwargs_arg random_seed_arg check_arg =
     (case (if (case check_arg of None \<Rightarrow> True | Some b \<Rightarrow> b)
            then check_for_common_rows train_rd valid_rd test_rd else Inr ()) of
        Inl e \<Rightarrow> Inl e
      | Inr _ \<Rightarrow>
          Inr \<lparr> trainer = None,
                cluster_attr = cluster_attr_arg,
                row_numericalizer = row_numericalizer_arg,
                batch_size = batch_size_arg,
                eval_batch_size = eval_batch_size_arg,
                train_loader_kwargs = build_loader_kwargs train_loader_kwargs_arg,
                eval_loader_kwargs = build_loader_kwargs eval_loader_kwargs_arg,
                random_seed = (case random_seed_arg of None \<Rightarrow> 42 | Some s \<Rightarrow> s),
                train_row_dict = train_rd,
                valid_row_dict = valid_rd,
                test_row_dict = test_rd,
                train_pos_pair_set = None,
                valid_pos_pair_set = None,
                test_pos_pair_set = None \<rparr>)"

text \<open>
  \<open>DeduplicationDataModule._set_pair_sets\<close> (lines 80-96). Every call that can raise
  stands before the first assignment of its branch, so a raise leaves the module as it
  was and the result \<open>Inl\<close> loses no state. A stage other than "fit" and "test" (also
  \<open>None\<close>, the default of \<open>setup\<close>) changes nothing.
\<close>

definition DeduplicationDataModule_set_pair_sets ::
  "'n DeduplicationDataModule \<Rightarrow> string option \<Rightarrow> error + 'n DeduplicationDataModule" where
  "DeduplicationDataModule_set_pair_sets self stage =
     (if stage = Some ''fit'' then
        (case row_dict_to_cluster_dict (train_row_dict self) (cluster_attr self) of
           Inl e \<Rightarrow> Inl e
         | Inr train_cluster_dict \<Rightarrow>
             (case row_dict_to_cluster_dict (valid_row_dict self) (cluster_attr self) of
                Inl e \<Rightarrow> Inl e
              | Inr valid_cluster_dict \<Rightarrow>
                  Inr (self
                    \<lparr> train_pos_pair_set :=
                        Some (cluster_dict_to_id_pairs train_cluster_dict None),
                      valid_pos_pair_set :=
                        Some (cluster_dict_to_id_pairs valid_cluster_dict None) \<rparr>)))
      else if stage = Some ''test'' then
        (case row_dict_to_cluster_dict (test_row_dict self) (cluster_attr self) of
           Inl e \<Rightarrow> Inl e
         | Inr test_cluster_dict \<Rightarrow>
             Inr (self
               \<lparr> test_pos_pair_set :=
                   Some (cluster_dict_to_id_pairs test_cluster_dict None) \<rparr>))
      else Inr self)"

text \<open>
  \<open>DeduplicationDataModule.setup\<close> (lines 98-105): after \<open>_set_pair_sets\<close> it only logs
  the sizes of the sets just assigned.
\<close>

definition DeduplicationDataModule_setup ::
  "'n DeduplicationDataModule \<Rightarrow> string option \<Rightarrow> error + 'n DeduplicationDataModule" where
  "DeduplicationDataModule_setup self stage = DeduplicationDataModule_set_pair_sets self stage"

text \<open>
  \<open>DeduplicationDataModule.train_dataloader\<close> (lines 107-127). The conditional expression
  binds weakest: the seed is \<open>random_seed + current_epoch\<close> if a trainer is attached, else
  \<open>random_seed\<close>. \<open>//\<close> on Python integers is floor division, as \<open>div\<close> on \<open>int\<close>.
\<close>

definition DeduplicationDataModule_train_dataloader ::
  "'n DeduplicationDataModule \<Rightarrow> 'n ClusterDataset DataLoader" where
  "DeduplicationDataModule_train_dataloader self =
     (let train_cluster_dataset =
        \<lparr> ClusterDataset.row_dict = train_row_dict self,
          ClusterDataset.cluster_attr = cluster_attr self,
          ClusterDataset.row_numericalizer = row_numericalizer self,
          ClusterDataset.batch_size = batch_size self,
          ClusterDataset.max_cluster_size_in_batch = batch_size self div 3,
          ClusterDataset.random_seed =
            (case trainer self of
               Some t \<Rightarrow> random_seed self + current_epoch t
             | None \<Rightarrow> random_seed self) \<rparr>
      in \<lparr> DataLoader.dataset = train_cluster_dataset,
           DataLoader.batch_size = None,
           DataLoader.shuffle = False,
           DataLoader.loader_kwargs = train_loader_kwargs self \<rparr>)"

text \<open>\<open>DeduplicationDataModule.val_dataloader\<close> (lines 129-141).\<close>

definition DeduplicationDataModule_val_dataloader ::
  "'n DeduplicationDataModule \<Rightarrow> 'n RowDataset DataLoader" where
  "DeduplicationDataModule_val_dataloader self =
     (let valid_row_dataset =
        \<lparr> RowDataset.row_dict = valid_row_dict self,
          RowDataset.row_numericalizer = row_numericalizer self,
          RowDataset.batch_size = eval_batch_size self \<rparr>
      in \<lparr> DataLoader.dataset = valid_row_dataset,
           DataLoader.batch_size = None,
           DataLoader.shuffle = False,
           DataLoader.loader_kwargs = eval_loader_kwargs self \<rparr>)"

text \<open>\<open>DeduplicationDataModule.test_dataloader\<close> (lines 143-155).\<close>

definition DeduplicationDataModule_test_dataloader ::
  "'n DeduplicationDataModule \<Rightarrow> 'n RowDataset DataLoader" where
  "DeduplicationDataModule_test_dataloader self =
     (let test_row_dataset =
        \<lparr> RowDataset.row_dict = test_row_dict self,
          RowDataset.row_numericalizer = row_numericalizer self,
          RowDataset.batch_size = eval_batch_size self \<rparr>
      in \<lparr> DataLoader.dataset = test_row_dataset,
           DataLoader.batch_size = None,
           DataLoader.shuffle = False,
           DataLoader.loader_kwargs = eval_loader_kwargs self \<rparr>)"

section \<open>LinkageDataModule\<close>

text \<open>
  The attributes of a \<open>LinkageDataModule\<close>: those of the deduplication module and the
  source attribute and left source value, which the module passes on as it got them.
\<close>

record 'n LinkageDataModule =
  trainer :: "trainer option"
  row_numericalizer :: 'n
  batch_size :: int
  eval_batch_size :: int
  train_loader_kwargs :: kwargs_dict
  eval_loader_kwargs :: kwargs_dict
  random_seed :: int
  train_row_dict :: row_dict
  valid_row_dict :: row_dict
  test_row_dict :: row_dict
  source_attr :: pyval
  left_source :: pyval
  cluster_attr :: string
  train_pos_pair_set :: "pair_set option"
  valid_pos_pair_set :: "pair_set option"
  test_pos_pair_set :: "pair_set option"

text \<open>\<open>LinkageDataModule.__init__\<close> (lines 159-200), as for the deduplication module.\<close>

definition LinkageDataModule_init ::
  "(kwargs_dict option \<Rightarrow> kwargs_dict) \<Rightarrow> row_dict \<Rightarrow> row_dict \<Rightarrow> row_dict \<Rightarrow> pyval \<Rightarrow> pyval
    \<Rightarrow> string \<Rightarrow> 'n \<Rightarrow> int \<Rightarrow> int \<Rightarrow> kwargs_dict option \<Rightarrow> kwargs_dict option \<Rightarrow> int option
    \<Rightarrow> bool option \<Rightarrow> error + 'n LinkageDataModule" where
  "LinkageDataModule_init build_loader_kwargs train_rd valid_rd test_rd source_attr_arg
       left_source_arg cluster_attr_arg row_numericalizer_arg batch_size_arg
       eval_batch_size_arg train_loader_kwargs_arg eval_loader_kwargs_arg random_seed_arg
       check_arg =
     (case (if (case check_arg of None \<Rightarrow> True | Some b \<Rightarrow> b)
            then check_for_common_rows train_rd valid_rd test_rd else Inr ()) of
        Inl e \<Rightarrow> Inl e
      | Inr _ \<Rightarrow>
          Inr \<lparr> trainer = None,
                row_numericalizer = row_numericalizer_arg,
                batch_size = batch_size_arg,
                eval_batch_size = eval_batch_size_arg,
                train_loader_kwargs = build_loader_kwargs train_loader_kwargs_arg,
                eval_loader_kwargs = build_loader_kwargs eval_loader_kwargs_arg,
                random_seed = (case random_seed_arg of None \<Rightarrow> 42 | Some s \<Rightarrow> s),
                train_row_dict = train_rd,
                valid_row_dict = valid_rd,
                test_row_dict = test_rd,
                source_attr = source_attr_arg,
                left_source = left_source_arg,
                cluster_attr = cluster_attr_arg,
                train_pos_pair_set = None,
                valid_pos_pair_set = None,
                test_pos_pair_set = None \<rparr>)"

text \<open>
  \<open>LinkageDataModule._set_pair_sets\<close> (lines 202-238): the left/right split of the train
  rows, then of the valid rows, then the two cluster dicts, then the two assignments. As
  in the deduplication module, every call that can raise stands before the first
  assignment of its branch.
\<close>

definition LinkageDataModule_set_pair_sets ::
  "'n LinkageDataModule \<Rightarrow> string option \<Rightarrow> error + 'n LinkageDataModule" where
  "LinkageDataModule_set_pair_sets self stage =
     (if stage = Some ''fit'' then
        (case row_dict_to_left_right_id_set (train_row_dict self) (source_attr self)
                (left_source self) of
           Inl e \<Rightarrow> Inl e
         | Inr (train_left_id_set, train_right_id_set) \<Rightarrow>
        (case row_dict_to_left_right_id_set (valid_row_dict self) (source_attr self)
                (left_source self) of
           Inl e \<Rightarrow> Inl e
         | Inr (valid_left_id_set, valid_right_id_set) \<Rightarrow>
        (case row_dict_to_cluster_dict (train_row_dict self) (cluster_attr self) of
           Inl e \<Rightarrow> Inl e
         | Inr train_cluster_dict \<Rightarrow>
        (case row_dict_to_cluster_dict (valid_row_dict self) (cluster_attr self) of
           Inl e \<Rightarrow> Inl e
         | Inr valid_cluster_dict \<Rightarrow>
             Inr (self
               \<lparr> train_pos_pair_set :=
                   Some (cluster_dict_to_id_pairs train_cluster_dict
                     (Some (train_left_id_set, train_right_id_set))),
                 valid_pos_pair_set :=
                   Some (cluster_dict_to_id_pairs valid_cluster_dict
                     (Some (valid_left_id_set, valid_right_id_set))) \<rparr>)))))
      else if stage = Some ''test'' then
        (case row_dict_to_left_right_id_set (test_row_dict self) (source_attr self)
                (left_source self) of
           Inl e \<Rightarrow> Inl e
         | Inr (test_left_id_set, test_right_id_set) \<Rightarrow>
        (case row_dict_to_cluster_dict (test_row_dict self) (cluster_attr self) of
           Inl e \<Rightarrow> Inl e
         | Inr test_cluster_dict \<Rightarrow>
             Inr (self
               \<lparr> test_pos_pair_set :=
                   Some (cluster_dict_to_id_pairs test_cluster_dict
                     (Some (test_left_id_set, test_right_id_set))) \<rparr>)))
      else Inr self)"

text \<open>\<open>LinkageDataModule.setup\<close> (lines 240-247).\<close>

definition LinkageDataModule_setup ::
  "'n LinkageDataModule \<Rightarrow> string option \<Rightarrow> error + 'n LinkageDataModule" where
  "LinkageDataModule_setup self stage = LinkageDataModule_set_pair_sets self stage"

text \<open>\<open>LinkageDataModule.train_dataloader\<close> (lines 249-269).\<close>

definition LinkageDataModule_train_dataloader ::
  "'n LinkageDataModule \<Rightarrow> 'n ClusterDataset DataLoader" where
  "LinkageDataModule_train_dataloader self =
     (let train_cluster_dataset =
        \<lparr> ClusterDataset.row_dict = train_row_dict self,
          ClusterDataset.cluster_attr = cluster_attr self,
          ClusterDataset.row_numericalizer = row_numericalizer self,
          ClusterDataset.batch_size = batch_size self,
          ClusterDataset.max_cluster_size_in_batch = batch_size self div 3,
          ClusterDataset.random_seed =
            (case trainer self of
               Some t \<Rightarrow> random_seed self + current_epoch t
             | None \<Rightarrow> random_seed self) \<rparr>
      in \<lparr> DataLoader.dataset = train_cluster_dataset,
           DataLoader.batch_size = None,
           DataLoader.shuffle = False,
           DataLoader.loader_kwargs = train_loader_kwargs self \<rparr>)"

text \<open>\<open>LinkageDataModule.val_dataloader\<close> (lines 271-283).\<close>

definition LinkageDataModule_val_dataloader ::
  "'n LinkageDataModule \<Rightarrow> 'n RowDataset DataLoader" where
  "LinkageDataModule_val_dataloader self =
     (let valid_row_dataset =
        \<lparr> RowDataset.row_dict = valid_row_dict self,
          RowDataset.row_numericalizer = row_numericalizer self,
          RowDataset.batch_size = eval_batch_size self \<rparr>
      in \<lparr> DataLoader.dataset = valid_row_dataset,
           DataLoader.batch_size = None,
           DataLoader.shuffle = False,
           DataLoader.loader_kwargs = eval_loader_kwargs self \<rparr>)"

text \<open>\<open>LinkageDataModule.test_dataloader\<close> (lines 285-297).\<close>

definition LinkageDataModule_test_dataloader ::
  "'n LinkageDataModule \<Rightarrow> 'n RowDataset DataLoader" where
  "LinkageDataModule_test_dataloader self =
     (let test_row_dataset =
        \<lparr> RowDataset.row_dict = test_row_dict self,
          RowDataset.row_numericalizer = row_numericalizer self,
          RowDataset.batch_size = eval_batch_size self \<rparr>
      in \<lparr> DataLoader.dataset = test_row_dataset,
           DataLoader.batch_size = None,
           DataLoader.shuffle = False,
           DataLoader.loader_kwargs = eval_loader_kwargs self \<rparr>)"

section \<open>PairwiseDataModule\<close>

record 'n PairwiseDataModule =
  trainer :: "trainer option"
  row_numericalizer :: 'n
  batch_size :: int
  eval_batch_size :: int
  train_loader_kwargs :: kwargs_dict
  eval_loader_kwargs :: kwargs_dict
  random_seed :: int
  row_dict :: row_dict
  train_pos_pair_set :: pair_set
  valid_pos_pair_set :: pair_set
  test_pos_pair_set :: pair_set
  train_neg_pair_set :: pair_set
  valid_neg_pair_set :: pair_set
  test_neg_pair_set :: pair_set

text \<open>\<open>PairwiseDataModule.__init__\<close> (lines 301-332): it raises nothing.\<close>

definition PairwiseDataModule_init ::
  "(kwargs_dict option \<Rightarrow> kwargs_dict) \<Rightarrow> row_dict \<Rightarrow> 'n \<Rightarrow> int \<Rightarrow> int \<Rightarrow> pair_set \<Rightarrow> pair_set
    \<Rightarrow> pair_set \<Rightarrow> pair_set \<Rightarrow> pair_set \<Rightarrow> pair_set \<Rightarrow> kwargs_dict option
    \<Rightarrow> kwargs_dict option \<Rightarrow> int option \<Rightarrow> 'n PairwiseDataModule" where
  "PairwiseDataModule_init build_loader_kwargs row_dict_arg row_numericalizer_arg
       batch_size_arg eval_batch_size_arg train_pos valid_pos test_pos train_neg valid_neg
       test_neg train_loader_kwargs_arg eval_loader_kwargs_arg random_seed_arg =
     \<lparr> trainer = None,
       row_numericalizer = row_numericalizer_arg,
       batch_size = batch_size_arg,
       eval_batch_size = eval_batch_size_arg,
       train_loader_kwargs = build_loader_kwargs train_loader_kwargs_arg,
       eval_loader_kwargs = build_loader_kwargs eval_loader_kwargs_arg,
       random_seed = (case random_seed_arg of None \<Rightarrow> 42 | Some s \<Rightarrow> s),
       row_dict = row_dict_arg,
       train_pos_pair_set = train_pos,
       valid_pos_pair_set = valid_pos,
       test_pos_pair_set = test_pos,
       train_neg_pair_set = train_neg,
       valid_neg_pair_set = valid_neg,
       test_neg_pair_set = test_neg \<rparr>"

text \<open>\<open>PairwiseDataModule.train_dataloader\<close> (lines 334-353).\<close>

definition PairwiseDataModule_train_dataloader ::
  "'n PairwiseDataModule \<Rightarrow> 'n PairDataset DataLoader" where
  "PairwiseDataModule_train_dataloader self =
     (let train_cluster_dataset =
        \<lparr> PairDataset.row_dict = row_dict self,
          PairDataset.pos_pair_set = train_pos_pair_set self,
          PairDataset.neg_pair_set = train_neg_pair_set self,
          PairDataset.row_numericalizer = row_numericalizer self,
          PairDataset.batch_size = batch_size self,
          PairDataset.random_seed =
            (case trainer self of
               Some t \<Rightarrow> Some (random_seed self + current_epoch t)
             | None \<Rightarrow> Some (random_seed self)) \<rparr>
      in \<lparr> DataLoader.dataset = train_cluster_dataset,
           DataLoader.batch_size = None,
           DataLoader.shuffle = False,
           DataLoader.loader_kwargs = train_loader_kwargs self \<rparr>)"

text \<open>\<open>PairwiseDataModule.val_dataloader\<close> (lines 355-370).\<close>

definition PairwiseDataModule_val_dataloader ::
  "'n PairwiseDataModule \<Rightarrow> 'n PairDataset DataLoader" where
  "PairwiseDataModule_val_dataloader self =
     (let valid_cluster_dataset =
        \<lparr> PairDataset.row_dict = row_dict self,
          PairDataset.pos_pair_set = valid_pos_pair_set self,
          PairDataset.neg_pair_set = valid_neg_pair_set self,
          PairDataset.row_numericalizer = row_numericalizer self,
          PairDataset.batch_size = batch_size self,
          PairDataset.random_seed = None \<rparr>
      in \<lparr> DataLoader.dataset = valid_cluster_dataset,
           DataLoader.batch_size = None,
           DataLoader.shuffle = False,
           DataLoader.loader_kwargs = eval_loader_kwargs self \<rparr>)"

text \<open>\<open>PairwiseDataModule.test_dataloader\<close> (lines 372-387).\<close>

definition PairwiseDataModule_test_dataloader ::
  "'n PairwiseDataModule \<Rightarrow> 'n PairDataset DataLoader" where
  "PairwiseDataModule_test_dataloader self =
     (let test_cluster_dataset =
        \<lparr> PairDataset.row_dict = row_dict self,
          PairDataset.pos_pair_set = test_pos_pair_set self,
          PairDataset.neg_pair_set = test_neg_pair_set self,
          PairDataset.row_numericalizer = row_numericalizer self,
          PairDataset.batch_size = batch_size self,
          PairDataset.random_seed = None \<rparr>
      in \<lparr> DataLoader.dataset = test_cluster_dataset,
           DataLoader.batch_size = None,
           DataLoader.shuffle = False,
           DataLoader.loader_kwargs = eval_loader_kwargs self \<rparr>)"

section \<open>The command line: choosing the mode and building the data module\<close>

text \<open>
  The keyword arguments of the \<open>train\<close> command that \<open>_build_datamodule\<close> reads. The
  command declares each of them as an option, so every key is present and
  \<open>kwargs.get(k)\<close> is \<open>kwargs[k]\<close>; an option that was not given and has no default is
  \<open>None\<close>. \<open>cluster_attr\<close>, \<open>batch_size\<close> and \<open>eval_batch_size\<close> are required options.
\<close>

record cli_kwargs =
  cluster_attr :: string
  source_attr :: pyval
  left_source :: pyval
  batch_size :: int
  eval_batch_size :: int
  num_workers :: pyval
  multiprocessing_context :: pyval
  random_seed :: "int option"

text \<open>Python's truth value of \<open>None\<close>, an integer and a string.\<close>

fun truthy :: "pyval \<Rightarrow> bool" where
  "truthy NoneV = False"
| "truthy (IntV n) = (n \<noteq> 0)"
| "truthy (StrV s) = (s \<noteq> [])"

fun truthy_int :: "int option \<Rightarrow> bool" where
  "truthy_int None = False"
| "truthy_int (Some n) = (n \<noteq> 0)"

text \<open>
  \<open>_is_record_linkage\<close> (cli.py, lines 66-75). The message is the source's, without the
  quotation marks around the two option names.
\<close>

definition is_record_linkage :: "cli_kwargs \<Rightarrow> error + bool" where
  "is_record_linkage kwargs =
     (let left_source = left_source kwargs;
          source_attr = source_attr kwargs
      in if (truthy left_source \<and> \<not> truthy source_attr)
            \<or> (\<not> truthy left_source \<and> truthy source_attr)
         then Inl (KeyError ''You must provide BOTH source_attr and left_source to perform Record Linkage. Either remove both or provide both.'')
         else Inr (truthy left_source))"

text \<open>The class \<open>_build_datamodule\<close> instantiates.\<close>

datatype 'n datamodule =
    Deduplication "'n DeduplicationDataModule"
  | Linkage "'n LinkageDataModule"

text \<open>
  \<open>_build_datamodule\<close> (cli.py, lines 78-111). The mode check is the first call that can
  raise; the constructor of the chosen class is the last statement. The loader keyword
  arguments are passed only if \<open>num_workers\<close> or \<open>multiprocessing_context\<close> is true, and
  hold those of the two that are true; \<open>random_seed\<close> is passed only if it is true;
  \<open>check_for_common_rows\<close> is never passed.
\<close>

definition build_datamodule ::
  "(kwargs_dict option \<Rightarrow> kwargs_dict) \<Rightarrow> row_dict \<Rightarrow> row_dict \<Rightarrow> row_dict \<Rightarrow> 'n \<Rightarrow> cli_kwargs
    \<Rightarrow> error + 'n datamodule" where
  "build_datamodule build_loader_kwargs train_rd valid_rd test_rd row_numericalizer_arg kwargs =
     (case is_record_linkage kwargs of
        Inl e \<Rightarrow> Inl e
      | Inr linkage \<Rightarrow>
          (let loader_args =
                 (if truthy (num_workers kwargs) \<or> truthy (multiprocessing_context kwargs)
                  then Some (filter (\<lambda>(k, v). truthy v)
                         [(''num_workers'', num_workers kwargs),
                          (''multiprocessing_context'', multiprocessing_context kwargs)])
                  else None);
               seed = (if truthy_int (random_seed kwargs) then random_seed kwargs else None)
           in if linkage then
                map_sum id Linkage
                  (LinkageDataModule_init build_loader_kwargs train_rd valid_rd test_rd
                     (source_attr kwargs) (left_source kwargs) (cluster_attr kwargs)
                     row_numericalizer_arg (batch_size kwargs) (eval_batch_size kwargs)
                     loader_args loader_args seed None)
              else
                map_sum id Deduplication
                  (DeduplicationDataModule_init build_loader_kwargs train_rd valid_rd test_rd
                     (cluster_attr kwargs) row_numericalizer_arg (batch_size kwargs)
                     (eval_batch_size kwargs) loader_args loader_args seed None)))"

section \<open>The contract of the training dataset's batches\<close>



section \<open>Construction and the check for common rows\<close>

lemma check_for_common_rows_isl:
  "isl (check_for_common_rows tr va te) =
     (keys tr \<inter> keys va \<noteq> {} \<or> keys tr \<inter> keys te \<noteq> {} \<or> keys va \<inter> keys te \<noteq> {})"
  by (simp add: check_for_common_rows_def Let_def)

lemma check_for_common_rows_error:
  "check_for_common_rows tr va te = Inl e \<Longrightarrow>
     (e = ValueError ''train_row_dict'' ''valid_row_dict'' (keys tr \<inter> keys va)
        \<and> keys tr \<inter> keys va \<noteq> {})
     \<or> (e = ValueError ''train_row_dict'' ''test_row_dict'' (keys tr \<inter> keys te)
        \<and> keys tr \<inter> keys te \<noteq> {})
     \<or> (e = ValueError ''valid_row_dict'' ''test_row_dict'' (keys va \<inter> keys te)
        \<and> keys va \<inter> keys te \<noteq> {})"
  by (simp add: check_for_common_rows_def Let_def split: if_splits)

lemma dedup_init_Inl:
  "DeduplicationDataModule_init blk tr va te ca rn bs ebs tlk elk seed chk = Inl e
     \<longleftrightarrow> chk \<noteq> Some False \<and> check_for_common_rows tr va te = Inl e"
  by (cases chk; cases "check_for_common_rows tr va te")
     (auto simp: DeduplicationDataModule_init_def)

lemma linkage_init_Inl:
  "LinkageDataModule_init blk tr va te sa ls ca rn bs ebs tlk elk seed chk = Inl e
     \<longleftrightarrow> chk \<noteq> Some False \<and> check_for_common_rows tr va te = Inl e"
  by (cases chk; cases "check_for_common_rows tr va te")
     (auto simp: LinkageDataModule_init_def)

lemma dedup_init_Inr:
  "DeduplicationDataModule_init blk tr va te ca rn bs ebs tlk elk seed chk = Inr dm \<Longrightarrow>
     DeduplicationDataModule.train_pos_pair_set dm = None
     \<and> DeduplicationDataModule.valid_pos_pair_set dm = None
     \<and> DeduplicationDataModule.test_pos_pair_set dm = None
     \<and> DeduplicationDataModule.train_row_dict dm = tr
     \<and> DeduplicationDataModule.valid_row_dict dm = va
     \<and> DeduplicationDataModule.test_row_dict dm = te"
  by (cases chk; cases "check_for_common_rows tr va te")
     (auto simp: DeduplicationDataModule_init_def split: if_splits)

lemma linkage_init_Inr:
  "LinkageDataModule_init blk tr va te sa ls ca rn bs ebs tlk elk seed chk = Inr dm \<Longrightarrow>
     LinkageDataModule.train_pos_pair_set dm = None
     \<and> LinkageDataModule.valid_pos_pair_set dm = None
     \<and> LinkageDataModule.test_pos_pair_set dm = None
     \<and> LinkageDataModule.train_row_dict dm = tr
     \<and> LinkageDataModule.valid_row_dict dm = va
     \<and> LinkageDataModule.test_row_dict dm = te"
  by (cases chk; cases "check_for_common_rows tr va te")
     (auto simp: LinkageDataModule_init_def split: if_splits)

lemma isl_iff: "isl x \<longleftrightarrow> (\<exists>e. x = Inl e)"
  by (cases x) auto

text \<open>
  Claim C1. With the check for common rows enabled (the argument omitted, its default, or
  passed as \<open>True\<close>), constructing a \<open>DeduplicationDataModule\<close> or a \<open>LinkageDataModule\<close>
  raises exactly when two of the three row dicts share an ID. The error raised is the
  \<open>ValueError\<close> that names a pair of splits whose key sets intersect, together with that
  intersection. The raise happens before any attribute is assigned: a failed
  construction yields the error and no module, and a successful one leaves the three
  positive pair sets at \<open>None\<close>, so no pair set is built by construction.
\<close>

theorem init_raises_iff_common_ids:
  assumes chk: "chk = None \<or> chk = Some True"
  shows "(isl (DeduplicationDataModule_init blk tr va te ca rn bs ebs tlk elk seed chk) =
           (keys tr \<inter> keys va \<noteq> {} \<or> keys tr \<inter> keys te \<noteq> {} \<or> keys va \<inter> keys te \<noteq> {}))
    \<and> (isl (LinkageDataModule_init blk tr va te sa ls ca rn bs ebs tlk elk seed chk) =
           (keys tr \<inter> keys va \<noteq> {} \<or> keys tr \<inter> keys te \<noteq> {} \<or> keys va \<inter> keys te \<noteq> {}))
    \<and> (\<forall>e. DeduplicationDataModule_init blk tr va te ca rn bs ebs tlk elk seed chk = Inl e
           \<or> LinkageDataModule_init blk tr va te sa ls ca rn bs ebs tlk elk seed chk = Inl e
         \<longrightarrow> (e = ValueError ''train_row_dict'' ''valid_row_dict'' (keys tr \<inter> keys va)
                \<and> keys tr \<inter> keys va \<noteq> {})
             \<or> (e = ValueError ''train_row_dict'' ''test_row_dict'' (keys tr \<inter> keys te)
                \<and> keys tr \<inter> keys te \<noteq> {})
             \<or> (e = ValueError ''valid_row_dict'' ''test_row_dict'' (keys va \<inter> keys te)
                \<and> keys va \<inter> keys te \<noteq> {}))
    \<and> (\<forall>dm. DeduplicationDataModule_init blk tr va te ca rn bs ebs tlk elk seed chk = Inr dm
         \<longrightarrow> DeduplicationDataModule.train_pos_pair_set dm = None
             \<and> DeduplicationDataModule.valid_pos_pair_set dm = None
             \<and> DeduplicationDataModule.test_pos_pair_set dm = None)
    \<and> (\<forall>dm. LinkageDataModule_init blk tr va te sa ls ca rn bs ebs tlk elk seed chk = Inr dm
         \<longrightarrow> LinkageDataModule.train_pos_pair_set dm = None
             \<and> LinkageDataModule.valid_pos_pair_set dm = None
             \<and> LinkageDataModule.test_pos_pair_set dm = None)"
proof -
  have on: "chk \<noteq> Some False" using chk by auto
  have d: "isl (DeduplicationDataModule_init blk tr va te ca rn bs ebs tlk elk seed chk)
             = isl (check_for_common_rows tr va te)"
    unfolding isl_iff dedup_init_Inl using on by simp
  have l: "isl (LinkageDataModule_init blk tr va te sa ls ca rn bs ebs tlk elk seed chk)
             = isl (check_for_common_rows tr va te)"
    unfolding isl_iff linkage_init_Inl using on by simp
  have e: "\<forall>e. DeduplicationDataModule_init blk tr va te ca rn bs ebs tlk elk seed chk = Inl e
           \<or> LinkageDataModule_init blk tr va te sa ls ca rn bs ebs tlk elk seed chk = Inl e
         \<longrightarrow> (e = ValueError ''train_row_dict'' ''valid_row_dict'' (keys tr \<inter> keys va)
                \<and> keys tr \<inter> keys va \<noteq> {})
             \<or> (e = ValueError ''train_row_dict'' ''test_row_dict'' (keys tr \<inter> keys te)
                \<and> keys tr \<inter> keys te \<noteq> {})
             \<or> (e = ValueError ''valid_row_dict'' ''test_row_dict'' (keys va \<inter> keys te)
                \<and> keys va \<inter> keys te \<noteq> {})"
    using check_for_common_rows_error [of tr va te]
    unfolding dedup_init_Inl linkage_init_Inl by blast
  show ?thesis
    using d l e dedup_init_Inr [of blk tr va te ca rn bs ebs tlk elk seed chk]
      linkage_init_Inr [of blk tr va te sa ls ca rn bs ebs tlk elk seed chk]
    unfolding check_for_common_rows_isl by blast
qed

text \<open>
  The scenario of the specification: ID 5 in both the train and the valid rows. The error
  names the two splits and the set \<open>{5}\<close>; disjoint row dicts raise nothing.
\<close>

theorem init_raises_iff_common_ids_witness:
  "DeduplicationDataModule_init (\<lambda>_. []) [(5, [])] [(5, [])] [] ''cluster'' () 8 4 None None None None
     = Inl (ValueError ''train_row_dict'' ''valid_row_dict'' {5})
   \<and> isl (LinkageDataModule_init (\<lambda>_. []) [(5, [])] [(5, [])] [] (StrV ''src'')
       (StrV ''left'') ''cluster'' () 8 4 None None None None)
   \<and> \<not> isl (DeduplicationDataModule_init (\<lambda>_. []) [(1, [])] [(2, [])] [(3, [])] ''cluster'' () 8 4
       None None None (Some True))"
proof -
  have h: "None = None \<or> None = Some True" by simp
  have h': "Some True = None \<or> Some True = Some True" by simp
  note leak = init_raises_iff_common_ids [OF h, of "\<lambda>_. []" "[(5, [])]" "[(5, [])]" "[]" "''cluster''" "()" 8 4 None None
      None "StrV ''src''" "StrV ''left''"]
  note ok = init_raises_iff_common_ids [OF h', of "\<lambda>_. []" "[(1, [])]" "[(2, [])]" "[(3, [])]" "''cluster''" "()" 8 4 None
      None None]
  from leak have 1: "isl (DeduplicationDataModule_init (\<lambda>_. []) [(5, [])] [(5, [])] []
      ''cluster'' () 8 4 None None None None)"
    and 2: "isl (LinkageDataModule_init (\<lambda>_. []) [(5, [])] [(5, [])] [] (StrV ''src'')
       (StrV ''left'') ''cluster'' () 8 4 None None None None)"
    by (simp_all add: keys_def)
  from 1 obtain e where e: "DeduplicationDataModule_init (\<lambda>_. []) [(5, [])] [(5, [])] []
      ''cluster'' () 8 4 None None None None = Inl e"
    by (auto simp: isl_iff)
  with leak have "e = ValueError ''train_row_dict'' ''valid_row_dict'' {5}"
    by (auto simp: keys_def)
  with e have 3: "DeduplicationDataModule_init (\<lambda>_. []) [(5, [])] [(5, [])] [] ''cluster'' () 8 4
      None None None None = Inl (ValueError ''train_row_dict'' ''valid_row_dict'' {5})"
    by simp
  from ok have 4: "\<not> isl (DeduplicationDataModule_init (\<lambda>_. []) [(1, [])] [(2, [])] [(3, [])]
      ''cluster'' () 8 4 None None None (Some True))"
    by (simp add: keys_def)
  from 3 2 4 show ?thesis by blast
qed

text \<open>
  Claim C10. The check is an optional keyword argument. Passed as \<open>False\<close>, construction
  of either module succeeds for all row dicts, shared IDs or not, and stores the row
  dicts as given. Omitted, the default \<open>True\<close> applies: construction raises exactly when
  \<open>_check_for_common_rows\<close> does.
\<close>

theorem init_without_check_succeeds:
  "(\<exists>dm. DeduplicationDataModule_init blk tr va te ca rn bs ebs tlk elk seed (Some False) = Inr dm
        \<and> DeduplicationDataModule.train_row_dict dm = tr
        \<and> DeduplicationDataModule.valid_row_dict dm = va
        \<and> DeduplicationDataModule.test_row_dict dm = te)
   \<and> (\<exists>dm. LinkageDataModule_init blk tr va te sa ls ca rn bs ebs tlk elk seed (Some False) = Inr dm
        \<and> LinkageDataModule.train_row_dict dm = tr
        \<and> LinkageDataModule.valid_row_dict dm = va
        \<and> LinkageDataModule.test_row_dict dm = te)
   \<and> isl (DeduplicationDataModule_init blk tr va te ca rn bs ebs tlk elk seed None)
       = isl (check_for_common_rows tr va te)
   \<and> isl (LinkageDataModule_init blk tr va te sa ls ca rn bs ebs tlk elk seed None)
       = isl (check_for_common_rows tr va te)"
  by (cases "check_for_common_rows tr va te")
     (simp_all add: DeduplicationDataModule_init_def LinkageDataModule_init_def)

text \<open>
  ID 5 in all three row dicts: with the check switched off both constructors return a
  module; with the argument omitted the construction raises.
\<close>

theorem init_without_check_succeeds_witness:
  "\<not> isl (DeduplicationDataModule_init (\<lambda>_. []) [(5, [])] [(5, [])] [(5, [])] ''cluster'' () 8 4
          None None None (Some False))
   \<and> \<not> isl (LinkageDataModule_init (\<lambda>_. []) [(5, [])] [(5, [])] [(5, [])] (StrV ''src'')
          (StrV ''left'') ''cluster'' () 8 4 None None None (Some False))
   \<and> isl (DeduplicationDataModule_init (\<lambda>_. []) [(5, [])] [(5, [])] [(5, [])] ''cluster'' () 8 4
          None None None None)"
  using init_without_check_succeeds [of "\<lambda>_. []" "[(5, [])]" "[(5, [])]" "[(5, [])]" "''cluster''"
      "()" 8 4 None None None "StrV ''src''" "StrV ''left''"]
  by (auto simp: check_for_common_rows_def keys_def)

section \<open>The dataloaders\<close>

text \<open>
  Claim C4. Each call of \<open>train_dataloader\<close> of either module constructs the cluster
  dataset with seed \<open>random_seed + current_epoch\<close> when a trainer is attached and with
  \<open>random_seed\<close> when none is. Hence two modules with the same base seed get the same
  dataset seed exactly when their trainers are at the same epoch: equal seed and epoch
  give equal dataset seeds, different epochs give different ones.
\<close>

theorem train_dataloader_seed:
  "ClusterDataset.random_seed (DataLoader.dataset (DeduplicationDataModule_train_dataloader
       (dm\<lparr>DeduplicationDataModule.trainer := Some t\<rparr>)))
     = DeduplicationDataModule.random_seed dm + current_epoch t
   \<and> ClusterDataset.random_seed (DataLoader.dataset (DeduplicationDataModule_train_dataloader
       (dm\<lparr>DeduplicationDataModule.trainer := None\<rparr>)))
     = DeduplicationDataModule.random_seed dm
   \<and> ClusterDataset.random_seed (DataLoader.dataset (LinkageDataModule_train_dataloader
       (lm\<lparr>LinkageDataModule.trainer := Some t\<rparr>)))
     = LinkageDataModule.random_seed lm + current_epoch t
   \<and> ClusterDataset.random_seed (DataLoader.dataset (LinkageDataModule_train_dataloader
       (lm\<lparr>LinkageDataModule.trainer := None\<rparr>)))
     = LinkageDataModule.random_seed lm
   \<and> ((ClusterDataset.random_seed (DataLoader.dataset (DeduplicationDataModule_train_dataloader
         (dm\<lparr>DeduplicationDataModule.trainer := Some t\<rparr>)))
       = ClusterDataset.random_seed (DataLoader.dataset (DeduplicationDataModule_train_dataloader
         (dm'\<lparr>DeduplicationDataModule.random_seed := DeduplicationDataModule.random_seed dm,
              DeduplicationDataModule.trainer := Some t'\<rparr>))))
      = (current_epoch t = current_epoch t'))
   \<and> ((ClusterDataset.random_seed (DataLoader.dataset (LinkageDataModule_train_dataloader
         (lm\<lparr>LinkageDataModule.trainer := Some t\<rparr>)))
       = ClusterDataset.random_seed (DataLoader.dataset (LinkageDataModule_train_dataloader
         (lm'\<lparr>LinkageDataModule.random_seed := LinkageDataModule.random_seed lm,
              LinkageDataModule.trainer := Some t'\<rparr>))))
      = (current_epoch t = current_epoch t'))"
  by (simp add: DeduplicationDataModule_train_dataloader_def
      LinkageDataModule_train_dataloader_def)

text \<open>Base seed 42 at epoch 3 gives dataset seed 45; without a trainer it is 42.\<close>

theorem train_dataloader_seed_witness:
  "ClusterDataset.random_seed (DataLoader.dataset (DeduplicationDataModule_train_dataloader
     (\<lparr> DeduplicationDataModule.trainer = None,
          DeduplicationDataModule.cluster_attr = ''cluster'',
          DeduplicationDataModule.row_numericalizer = (),
          DeduplicationDataModule.batch_size = 8,
          DeduplicationDataModule.eval_batch_size = 4,
          DeduplicationDataModule.train_loader_kwargs = [],
          DeduplicationDataModule.eval_loader_kwargs = [],
          DeduplicationDataModule.random_seed = 42,
          DeduplicationDataModule.train_row_dict = [(1, [(''cluster'', IntV 10)]), (2, [(''cluster'', IntV 10)]), (3, [(''cluster'', IntV 20)])],
          DeduplicationDataModule.valid_row_dict = [(4, [(''cluster'', IntV 10)])],
          DeduplicationDataModule.test_row_dict = [],
          DeduplicationDataModule.train_pos_pair_set = None,
          DeduplicationDataModule.valid_pos_pair_set = None,
          DeduplicationDataModule.test_pos_pair_set = None \<rparr>
       \<lparr>DeduplicationDataModule.trainer := Some \<lparr>current_epoch = 3\<rparr>\<rparr>))) = 45
   \<and> ClusterDataset.random_seed (DataLoader.dataset (DeduplicationDataModule_train_dataloader
     (\<lparr> DeduplicationDataModule.trainer = None,
          DeduplicationDataModule.cluster_attr = ''cluster'',
          DeduplicationDataModule.row_numericalizer = (),
          DeduplicationDataModule.batch_size = 8,
          DeduplicationDataModule.eval_batch_size = 4,
          DeduplicationDataModule.train_loader_kwargs = [],
          DeduplicationDataModule.eval_loader_kwargs = [],
          DeduplicationDataModule.random_seed = 42,
          DeduplicationDataModule.train_row_dict = [(1, [(''cluster'', IntV 10)]), (2, [(''cluster'', IntV 10)]), (3, [(''cluster'', IntV 20)])],
          DeduplicationDataModule.valid_row_dict = [(4, [(''cluster'', IntV 10)])],
          DeduplicationDataModule.test_row_dict = [],
          DeduplicationDataModule.train_pos_pair_set = None,
          DeduplicationDataModule.valid_pos_pair_set = None,
          DeduplicationDataModule.test_pos_pair_set = None \<rparr>
       \<lparr>DeduplicationDataModule.trainer := None\<rparr>))) = 42"
  using train_dataloader_seed [where dm = "\<lparr> DeduplicationDataModule.trainer = None,
          DeduplicationDataModule.cluster_attr = ''cluster'',
          DeduplicationDataModule.row_numericalizer = (),
          DeduplicationDataModule.batch_size = 8,
          DeduplicationDataModule.eval_batch_size = 4,
          DeduplicationDataModule.train_loader_kwargs = [],
          DeduplicationDataModule.eval_loader_kwargs = [],
          DeduplicationDataModule.random_seed = 42,
          DeduplicationDataModule.train_row_dict = [(1, [(''cluster'', IntV 10)]), (2, [(''cluster'', IntV 10)]), (3, [(''cluster'', IntV 20)])],
          DeduplicationDataModule.valid_row_dict = [(4, [(''cluster'', IntV 10)])],
          DeduplicationDataModule.test_row_dict = [],
          DeduplicationDataModule.train_pos_pair_set = None,
          DeduplicationDataModule.valid_pos_pair_set = None,
          DeduplicationDataModule.test_pos_pair_set = None \<rparr>" and t = "\<lparr>current_epoch = 3\<rparr>"]
  by (simp add: DeduplicationDataModule_train_dataloader_def)




text \<open>
  Claim C7. The validation and test dataloaders of either module do not depend on
  \<open>random_seed\<close> nor on the trainer and its epoch: changing both leaves the constructed
  loader the same, a row dataset over the valid (test) row dict with batch size
  \<open>eval_batch_size\<close>, in a loader with shuffling off. Hence whatever is computed from the
  loader, its batch sequence included (\<open>batches\<close> below is any function of the loader),
  is the same for any two seeds and epochs.
\<close>

theorem eval_dataloaders_seed_independent:
  "DeduplicationDataModule_val_dataloader
       (dm\<lparr>DeduplicationDataModule.random_seed := s, DeduplicationDataModule.trainer := t\<rparr>)
     = DeduplicationDataModule_val_dataloader dm
   \<and> DeduplicationDataModule_test_dataloader
       (dm\<lparr>DeduplicationDataModule.random_seed := s, DeduplicationDataModule.trainer := t\<rparr>)
     = DeduplicationDataModule_test_dataloader dm
   \<and> LinkageDataModule_val_dataloader
       (lm\<lparr>LinkageDataModule.random_seed := s, LinkageDataModule.trainer := t\<rparr>)
     = LinkageDataModule_val_dataloader lm
   \<and> LinkageDataModule_test_dataloader
       (lm\<lparr>LinkageDataModule.random_seed := s, LinkageDataModule.trainer := t\<rparr>)
     = LinkageDataModule_test_dataloader lm
   \<and> batches (DeduplicationDataModule_val_dataloader
         (dm\<lparr>DeduplicationDataModule.random_seed := s, DeduplicationDataModule.trainer := t\<rparr>))
     = batches (DeduplicationDataModule_val_dataloader dm)
   \<and> batches (DeduplicationDataModule_test_dataloader
         (dm\<lparr>DeduplicationDataModule.random_seed := s, DeduplicationDataModule.trainer := t\<rparr>))
     = batches (DeduplicationDataModule_test_dataloader dm)
   \<and> batches (LinkageDataModule_val_dataloader
         (lm\<lparr>LinkageDataModule.random_seed := s, LinkageDataModule.trainer := t\<rparr>))
     = batches (LinkageDataModule_val_dataloader lm)
   \<and> batches (LinkageDataModule_test_dataloader
         (lm\<lparr>LinkageDataModule.random_seed := s, LinkageDataModule.trainer := t\<rparr>))
     = batches (LinkageDataModule_test_dataloader lm)
   \<and> DeduplicationDataModule_val_dataloader dm
     = \<lparr> DataLoader.dataset =
           \<lparr> RowDataset.row_dict = DeduplicationDataModule.valid_row_dict dm,
             RowDataset.row_numericalizer = DeduplicationDataModule.row_numericalizer dm,
             RowDataset.batch_size = DeduplicationDataModule.eval_batch_size dm \<rparr>,
         DataLoader.batch_size = None, DataLoader.shuffle = False,
         DataLoader.loader_kwargs = DeduplicationDataModule.eval_loader_kwargs dm \<rparr>
   \<and> DeduplicationDataModule_test_dataloader dm
     = \<lparr> DataLoader.dataset =
           \<lparr> RowDataset.row_dict = DeduplicationDataModule.test_row_dict dm,
             RowDataset.row_numericalizer = DeduplicationDataModule.row_numericalizer dm,
             RowDataset.batch_size = DeduplicationDataModule.eval_batch_size dm \<rparr>,
         DataLoader.batch_size = None, DataLoader.shuffle = False,
         DataLoader.loader_kwargs = DeduplicationDataModule.eval_loader_kwargs dm \<rparr>
   \<and> LinkageDataModule_val_dataloader lm
     = \<lparr> DataLoader.dataset =
           \<lparr> RowDataset.row_dict = LinkageDataModule.valid_row_dict lm,
             RowDataset.row_numericalizer = LinkageDataModule.row_numericalizer lm,
             RowDataset.batch_size = LinkageDataModule.eval_batch_size lm \<rparr>,
         DataLoader.batch_size = None, DataLoader.shuffle = False,
         DataLoader.loader_kwargs = LinkageDataModule.eval_loader_kwargs lm \<rparr>
   \<and> LinkageDataModule_test_dataloader lm
     = \<lparr> DataLoader.dataset =
           \<lparr> RowDataset.row_dict = LinkageDataModule.test_row_dict lm,
             RowDataset.row_numericalizer = LinkageDataModule.row_numericalizer lm,
             RowDataset.batch_size = LinkageDataModule.eval_batch_size lm \<rparr>,
         DataLoader.batch_size = None, DataLoader.shuffle = False,
         DataLoader.loader_kwargs = LinkageDataModule.eval_loader_kwargs lm \<rparr>"
  by (simp add: DeduplicationDataModule_val_dataloader_def
      DeduplicationDataModule_test_dataloader_def LinkageDataModule_val_dataloader_def
      LinkageDataModule_test_dataloader_def)

text \<open>
  Claim C9. The validation and test dataloaders of a \<open>PairwiseDataModule\<close> build their
  pair dataset with the training \<open>batch_size\<close>, and with \<open>random_seed\<close> \<open>None\<close>.
  \<open>eval_batch_size\<close> is stored by the constructor, and none of the three dataloaders
  depends on it: changing it leaves each loader the same. On the loader side the train
  loader takes \<open>train_loader_kwargs\<close> and the other two \<open>eval_loader_kwargs\<close>.
\<close>

theorem pairwise_eval_uses_train_batch_size:
  "PairDataset.batch_size (DataLoader.dataset (PairwiseDataModule_val_dataloader pm))
     = PairwiseDataModule.batch_size pm
   \<and> PairDataset.batch_size (DataLoader.dataset (PairwiseDataModule_test_dataloader pm))
     = PairwiseDataModule.batch_size pm
   \<and> PairDataset.random_seed (DataLoader.dataset (PairwiseDataModule_val_dataloader pm)) = None
   \<and> PairDataset.random_seed (DataLoader.dataset (PairwiseDataModule_test_dataloader pm)) = None
   \<and> PairwiseDataModule_train_dataloader (pm\<lparr>PairwiseDataModule.eval_batch_size := b\<rparr>)
     = PairwiseDataModule_train_dataloader pm
   \<and> PairwiseDataModule_val_dataloader (pm\<lparr>PairwiseDataModule.eval_batch_size := b\<rparr>)
     = PairwiseDataModule_val_dataloader pm
   \<and> PairwiseDataModule_test_dataloader (pm\<lparr>PairwiseDataModule.eval_batch_size := b\<rparr>)
     = PairwiseDataModule_test_dataloader pm
   \<and> PairwiseDataModule.eval_batch_size
       (PairwiseDataModule_init blk rd rn bs ebs p1 p2 p3 n1 n2 n3 tlk elk seed) = ebs
   \<and> PairwiseDataModule.batch_size
       (PairwiseDataModule_init blk rd rn bs ebs p1 p2 p3 n1 n2 n3 tlk elk seed) = bs
   \<and> PairDataset.batch_size (DataLoader.dataset (PairwiseDataModule_val_dataloader
       (PairwiseDataModule_init blk rd rn bs ebs p1 p2 p3 n1 n2 n3 tlk elk seed))) = bs
   \<and> PairDataset.batch_size (DataLoader.dataset (PairwiseDataModule_test_dataloader
       (PairwiseDataModule_init blk rd rn bs ebs p1 p2 p3 n1 n2 n3 tlk elk seed))) = bs
   \<and> DataLoader.loader_kwargs (PairwiseDataModule_train_dataloader pm)
     = PairwiseDataModule.train_loader_kwargs pm
   \<and> DataLoader.loader_kwargs (PairwiseDataModule_val_dataloader pm)
     = PairwiseDataModule.eval_loader_kwargs pm
   \<and> DataLoader.loader_kwargs (PairwiseDataModule_test_dataloader pm)
     = PairwiseDataModule.eval_loader_kwargs pm"
  by (simp add: PairwiseDataModule_val_dataloader_def PairwiseDataModule_test_dataloader_def
      PairwiseDataModule_train_dataloader_def PairwiseDataModule_init_def split: option.split)

text \<open>Batch size 32 and evaluation batch size 7: both evaluation datasets get 32.\<close>

theorem pairwise_eval_uses_train_batch_size_witness:
  "PairDataset.batch_size (DataLoader.dataset (PairwiseDataModule_val_dataloader
       (PairwiseDataModule_init (\<lambda>_. []) [(1, []), (2, [])] () 32 7 {{1, 2}} {} {} {} {} {}
          None None None))) = 32
   \<and> PairDataset.batch_size (DataLoader.dataset (PairwiseDataModule_test_dataloader
       (PairwiseDataModule_init (\<lambda>_. []) [(1, []), (2, [])] () 32 7 {{1, 2}} {} {} {} {} {}
          None None None))) = 32"
  using pairwise_eval_uses_train_batch_size [where blk = "\<lambda>_. []" and rd = "[(1, []), (2, [])]" and rn = "()" and bs = 32
      and ebs = 7 and ?p1.0 = "{{1, 2}}" and ?p2.0 = "{}" and ?p3.0 = "{}" and ?n1.0 = "{}"
      and ?n2.0 = "{}" and ?n3.0 = "{}" and tlk = None and elk = None and seed = None]
  by blast


section \<open>The mode check of the command line\<close>

lemma is_record_linkage_cases:
  "is_record_linkage kw =
     (if truthy (left_source kw) = truthy (source_attr kw) then Inr (truthy (left_source kw))
      else Inl (KeyError ''You must provide BOTH source_attr and left_source to perform Record Linkage. Either remove both or provide both.''))"
  by (auto simp: is_record_linkage_def Let_def)

text \<open>
  Claim C8. When exactly one of \<open>source_attr\<close> and \<open>left_source\<close> is true (the other
  \<open>None\<close> or empty), \<open>_is_record_linkage\<close> raises its \<open>KeyError\<close>, and \<open>_build_datamodule\<close>
  raises that same error for all row dicts, also for those on which the constructor
  would raise: the mode check comes before any data module is built. When both are true
  the check returns \<open>True\<close> and the \<open>LinkageDataModule\<close> is constructed; when neither is,
  it returns \<open>False\<close> and the \<open>DeduplicationDataModule\<close> is constructed.
\<close>

theorem mode_check_both_or_neither:
  "(truthy (source_attr kw) \<noteq> truthy (left_source kw) \<longrightarrow>
      (\<exists>msg. is_record_linkage kw = Inl (KeyError msg)
         \<and> build_datamodule blk tr va te rn kw = Inl (KeyError msg)))
   \<and> (truthy (source_attr kw) \<and> truthy (left_source kw) \<longrightarrow>
      is_record_linkage kw = Inr True
      \<and> (\<exists>tlk elk seed. build_datamodule blk tr va te rn kw =
            map_sum id Linkage
              (LinkageDataModule_init blk tr va te (source_attr kw) (left_source kw)
                 (cluster_attr kw) rn (batch_size kw) (eval_batch_size kw) tlk elk seed None)))
   \<and> (\<not> truthy (source_attr kw) \<and> \<not> truthy (left_source kw) \<longrightarrow>
      is_record_linkage kw = Inr False
      \<and> (\<exists>tlk elk seed. build_datamodule blk tr va te rn kw =
            map_sum id Deduplication
              (DeduplicationDataModule_init blk tr va te (cluster_attr kw) rn (batch_size kw)
                 (eval_batch_size kw) tlk elk seed None)))"
  unfolding build_datamodule_def is_record_linkage_cases Let_def
  by auto

text \<open>
  Only \<open>source_attr\<close> given, with ID 5 in both the train and the valid rows: the error
  is the \<open>KeyError\<close> of the mode check, not the \<open>ValueError\<close> of the constructor. Both
  given: linkage mode. Neither given (\<open>left_source\<close> the empty string): deduplication
  mode.
\<close>

theorem mode_check_both_or_neither_witness:
  "(\<exists>msg. build_datamodule (\<lambda>_. []) [(5, [])] [(5, [])] [] ()
       \<lparr> cluster_attr = ''cluster'', source_attr = StrV ''src'', left_source = NoneV, batch_size = 8,
         eval_batch_size = 4, num_workers = IntV 2, multiprocessing_context = StrV ''fork'',
         random_seed = None \<rparr> = (Inl (KeyError msg) :: error + unit datamodule))
   \<and> is_record_linkage
       \<lparr> cluster_attr = ''cluster'', source_attr = StrV ''src'', left_source = StrV ''left'', batch_size = 8,
         eval_batch_size = 4, num_workers = IntV 2, multiprocessing_context = StrV ''fork'',
         random_seed = None \<rparr> = Inr True
   \<and> is_record_linkage
       \<lparr> cluster_attr = ''cluster'', source_attr = NoneV, left_source = StrV '''', batch_size = 8,
         eval_batch_size = 4, num_workers = IntV 2, multiprocessing_context = StrV ''fork'',
         random_seed = None \<rparr> = Inr False"
proof -
  note a = mode_check_both_or_neither [where kw = "\<lparr> cluster_attr = ''cluster'', source_attr = StrV ''src'', left_source = NoneV, batch_size = 8,
         eval_batch_size = 4, num_workers = IntV 2, multiprocessing_context = StrV ''fork'',
         random_seed = None \<rparr>"
      and blk = "\<lambda>_. []" and tr = "[(5, [])]" and va = "[(5, [])]" and te = "[]" and rn = "()"]
  note b = mode_check_both_or_neither [where kw = "\<lparr> cluster_attr = ''cluster'', source_attr = StrV ''src'', left_source = StrV ''left'', batch_size = 8,
         eval_batch_size = 4, num_workers = IntV 2, multiprocessing_context = StrV ''fork'',
         random_seed = None \<rparr>"
      and blk = "\<lambda>_. []" and tr = "[(5, [])]" and va = "[(5, [])]" and te = "[]" and rn = "()"]
  note c = mode_check_both_or_neither [where kw = "\<lparr> cluster_attr = ''cluster'', source_attr = NoneV, left_source = StrV '''', batch_size = 8,
         eval_batch_size = 4, num_workers = IntV 2, multiprocessing_context = StrV ''fork'',
         random_seed = None \<rparr>"
      and blk = "\<lambda>_. []" and tr = "[(5, [])]" and va = "[(5, [])]" and te = "[]" and rn = "()"]
  from a have 1: "\<exists>msg. build_datamodule (\<lambda>_. []) [(5, [])] [(5, [])] [] ()
       \<lparr> cluster_attr = ''cluster'', source_attr = StrV ''src'', left_source = NoneV, batch_size = 8,
         eval_batch_size = 4, num_workers = IntV 2, multiprocessing_context = StrV ''fork'',
         random_seed = None \<rparr> = (Inl (KeyError msg) :: error + unit datamodule)"
    by simp blast
  from b have 2: "is_record_linkage
       \<lparr> cluster_attr = ''cluster'', source_attr = StrV ''src'', left_source = StrV ''left'', batch_size = 8,
         eval_batch_size = 4, num_workers = IntV 2, multiprocessing_context = StrV ''fork'',
         random_seed = None \<rparr> = Inr True"
    by simp
  from c have 3: "is_record_linkage
       \<lparr> cluster_attr = ''cluster'', source_attr = NoneV, left_source = StrV '''', batch_size = 8,
         eval_batch_size = 4, num_workers = IntV 2, multiprocessing_context = StrV ''fork'',
         random_seed = None \<rparr> = Inr False"
    by simp
  from 1 2 3 show ?thesis by blast
qed

section \<open>Positive pairs\<close>



lemma cross_pairs_eq:
  "cross_pairs L R C = {p. \<exists>l r. p = {l, r} \<and> l \<in> C \<inter> L \<and> r \<in> C \<inter> R}"
  by (auto simp: cross_pairs_def)

lemma cross_pairs_sides:
  assumes "L \<inter> R = {}" "p \<in> cross_pairs L R C"
  shows "card (p \<inter> L) = 1 \<and> card (p \<inter> R) = 1 \<and> card p = 2 \<and> p \<subseteq> C"
proof -
  from assms(2) obtain l r where p: "p = {l, r}" and l: "l \<in> C" "l \<in> L" and r: "r \<in> C" "r \<in> R"
    by (auto simp: cross_pairs_eq)
  from assms(1) l r have nl: "l \<notin> R" and nr: "r \<notin> L" and ne: "l \<noteq> r" by auto
  have pl: "p \<inter> L = {l}" using p l(2) nr by auto
  have pr: "p \<inter> R = {r}" using p r(2) nl by auto
  have c2: "card p = 2" using p ne by simp
  have sub: "p \<subseteq> C" using p l(1) r(1) by simp
  show ?thesis using pl pr c2 sub by simp
qed

lemma cross_pairs_one_side:
  "C \<inter> L = {} \<or> C \<inter> R = {} \<Longrightarrow> cross_pairs L R C = {}"
  by (auto simp: cross_pairs_def)

lemma card_cross_pairs:
  assumes "L \<inter> R = {}" "finite C"
  shows "card (cross_pairs L R C) = card (C \<inter> L) * card (C \<inter> R)"
proof -
  have "inj_on (\<lambda>(l, r). {l, r}) ((C \<inter> L) \<times> (C \<inter> R))"
    using assms(1) by (auto simp: inj_on_def doubleton_eq_iff)
  then have "card (cross_pairs L R C) = card ((C \<inter> L) \<times> (C \<inter> R))"
    unfolding cross_pairs_def by (rule card_image)
  then show ?thesis by (simp add: card_cartesian_product)
qed

lemma split_rows_partition:
  "split_rows sa ls rd = Inr (L, R) \<Longrightarrow> L \<union> R = keys rd \<and> (distinct (map fst rd) \<longrightarrow> L \<inter> R = {})"
proof (induction rd arbitrary: L R)
  case Nil
  then show ?case by (simp add: keys_def)
next
  case (Cons x rd)
  obtain i r where x: "x = (i, r)" by (cases x)
  from Cons.prems x obtain v L' R' where v: "row_get r sa = Some v"
    and rec: "split_rows sa ls rd = Inr (L', R')"
    and res: "(L, R) = (if v = ls then (insert i L', R') else (L', insert i R'))"
    by (auto split: option.splits sum.splits if_splits)
  from Cons.IH [OF rec] have u: "L' \<union> R' = keys rd"
    and d: "distinct (map fst rd) \<longrightarrow> L' \<inter> R' = {}" by simp_all
  show ?case
  proof (cases "v = ls")
    case True
    with res u d x show ?thesis by (auto simp: keys_def)
  next
    case False
    with res u d x show ?thesis by (auto simp: keys_def)
  qed
qed

lemma split_ok:
  "row_dict_to_left_right_id_set rd sa ls = Inr (L, R) \<Longrightarrow>
     L \<noteq> {} \<and> R \<noteq> {} \<and> L \<union> R = keys rd \<and> (distinct (map fst rd) \<longrightarrow> L \<inter> R = {})"
  using split_rows_partition [of sa ls rd L R]
  by (auto simp: row_dict_to_left_right_id_set_def split: sum.splits if_splits)



lemma dedup_setup_other:
  "stage \<noteq> Some ''fit'' \<Longrightarrow> stage \<noteq> Some ''test'' \<Longrightarrow>
     DeduplicationDataModule_setup dm stage = Inr dm"
  by (simp add: DeduplicationDataModule_setup_def DeduplicationDataModule_set_pair_sets_def)

lemma linkage_setup_fit:
  "LinkageDataModule_setup lm (Some ''fit'') = Inr lm' \<longleftrightarrow>
     (\<exists>tl tr vl vr tcd vcd.
        row_dict_to_left_right_id_set (LinkageDataModule.train_row_dict lm)
          (LinkageDataModule.source_attr lm) (LinkageDataModule.left_source lm) = Inr (tl, tr)
      \<and> row_dict_to_left_right_id_set (LinkageDataModule.valid_row_dict lm)
          (LinkageDataModule.source_attr lm) (LinkageDataModule.left_source lm) = Inr (vl, vr)
      \<and> row_dict_to_cluster_dict (LinkageDataModule.train_row_dict lm)
          (LinkageDataModule.cluster_attr lm) = Inr tcd
      \<and> row_dict_to_cluster_dict (LinkageDataModule.valid_row_dict lm)
          (LinkageDataModule.cluster_attr lm) = Inr vcd
      \<and> lm' = lm\<lparr>LinkageDataModule.train_pos_pair_set :=
                     Some (cluster_dict_to_id_pairs tcd (Some (tl, tr))),
                   LinkageDataModule.valid_pos_pair_set :=
                     Some (cluster_dict_to_id_pairs vcd (Some (vl, vr)))\<rparr>)"
  by (auto simp: LinkageDataModule_setup_def LinkageDataModule_set_pair_sets_def
      split: sum.splits)

lemma linkage_setup_test:
  "LinkageDataModule_setup lm (Some ''test'') = Inr lm' \<longleftrightarrow>
     (\<exists>l r cd.
        row_dict_to_left_right_id_set (LinkageDataModule.test_row_dict lm)
          (LinkageDataModule.source_attr lm) (LinkageDataModule.left_source lm) = Inr (l, r)
      \<and> row_dict_to_cluster_dict (LinkageDataModule.test_row_dict lm)
          (LinkageDataModule.cluster_attr lm) = Inr cd
      \<and> lm' = lm\<lparr>LinkageDataModule.test_pos_pair_set :=
                     Some (cluster_dict_to_id_pairs cd (Some (l, r)))\<rparr>)"
  by (auto simp: LinkageDataModule_setup_def LinkageDataModule_set_pair_sets_def
      split: sum.splits)

lemma linkage_setup_other:
  "stage \<noteq> Some ''fit'' \<Longrightarrow> stage \<noteq> Some ''test'' \<Longrightarrow>
     LinkageDataModule_setup lm stage = Inr lm"
  by (simp add: LinkageDataModule_setup_def LinkageDataModule_set_pair_sets_def)


lemma linkage_pairs_eq:
  "cluster_dict_to_id_pairs cd (Some (L, R))
     = (\<Union>C \<in> snd ` set cd. {p. \<exists>l r. p = {l, r} \<and> l \<in> C \<inter> L \<and> r \<in> C \<inter> R})"
  by (simp add: cluster_dict_to_id_pairs_def cross_pairs_eq)


lemma index_rows_error:
  "index_rows attr rd cd = Inl e \<Longrightarrow> e = SchemaError"
  by (induction rd arbitrary: cd) (auto split: option.splits)

lemma linkage_pairs_sides:
  assumes "L \<inter> R = {}" "p \<in> cluster_dict_to_id_pairs cd (Some (L, R))"
  shows "card (p \<inter> L) = 1 \<and> card (p \<inter> R) = 1 \<and> card p = 2 \<and> \<not> p \<subseteq> L \<and> \<not> p \<subseteq> R"
proof -
  from assms(2) obtain C where "p \<in> cross_pairs L R C"
    by (auto simp: cluster_dict_to_id_pairs_def)
  from cross_pairs_sides [OF assms(1) this]
  have c: "card (p \<inter> L) = 1" "card (p \<inter> R) = 1" "card p = 2" by simp_all
  have "\<not> p \<subseteq> L"
  proof
    assume "p \<subseteq> L"
    then have "p \<inter> L = p" by auto
    with c show False by simp
  qed
  moreover have "\<not> p \<subseteq> R"
  proof
    assume "p \<subseteq> R"
    then have "p \<inter> R = p" by auto
    with c show False by simp
  qed
  ultimately show ?thesis using c by simp
qed



end
